theory Spec2Isabelle
  imports Main
begin

section \<open>Values, exceptions, configuration\<close>

text \<open>
  Python \<open>str\<close> and \<open>bytes\<close> are different types, and \<open>security.py\<close> converts between
  them with \<open>bytes(x, encoding='utf-8')\<close>. A \<open>str\<close> is represented by the character list
  of its UTF-8 encoding, so the conversion keeps the list and changes the tag; applied to
  a value that is already \<open>bytes\<close> it raises \<open>TypeError\<close> (encoding without a string
  argument).
\<close>

datatype pyval = PStr string | PBytes string

text \<open>
  The exceptions that can leave the modelled functions: the HTTP errors the handlers
  raise (status code and detail), the built-in exceptions, and the exception classes of
  the JWT library.
\<close>

datatype exn =
    HTTPException nat string
  | TypeError
  | ValueError
  | KeyError
  | AttributeError
  | DecodeError
  | InvalidSignatureError
  | ExpiredSignatureError
  | ImmatureSignatureError
  | InvalidAlgorithmError

text \<open>
  \<open>except jwt.exceptions.DecodeError\<close> catches \<open>DecodeError\<close> and its subclass
  \<open>InvalidSignatureError\<close>. The other token errors derive from \<open>InvalidTokenError\<close>
  directly and are not caught by that clause.
\<close>

fun isinstance_DecodeError :: "exn \<Rightarrow> bool" where
  "isinstance_DecodeError DecodeError = True"
| "isinstance_DecodeError InvalidSignatureError = True"
| "isinstance_DecodeError _ = False"

definition py_bytes :: "pyval \<Rightarrow> exn + string" where
  "py_bytes v = (case v of PStr s \<Rightarrow> Inr s | PBytes b \<Rightarrow> Inl TypeError)"

text \<open>\<open>config.py\<close>: the settings the authentication core reads. Durations and clock
  readings are whole seconds.\<close>

record settings =
  SECRET_KEY :: string
  ALGORITHM :: string
  ACCESS_TOKEN_EXPIRE_MINUTES :: int
  EMAIL_RESET_TOKEN_EXPIRE_HOURS :: int

definition minutes :: "int \<Rightarrow> int" where
  "minutes m = 60 * m"

definition hours :: "int \<Rightarrow> int" where
  "hours h = 3600 * h"

section \<open>The external libraries\<close>

text \<open>
  \<open>bcrypt\<close> and the JWT library are not part of the repository. The code is modelled
  over any implementation of the calls it makes. \<open>bcrypt.gensalt()\<close> draws a random salt:
  the salt drawn is an argument of the function that calls it.
\<close>

record bcrypt_lib =
  hashpw :: "string \<Rightarrow> string \<Rightarrow> exn + string"
  checkpw :: "string \<Rightarrow> string \<Rightarrow> exn + bool"

datatype jval = JStr string | JNum int

type_synonym claims = "string \<rightharpoonup> jval"

text \<open>
  \<open>jwt_decode\<close> takes the token, the key, the accepted algorithms and the current time
  (the library reads the clock to check \<open>exp\<close> and \<open>nbf\<close>). Tokens are opaque to the
  application, so their representation \<open>'tok\<close> is left open. \<open>JWTError\<close> is the module
  attribute \<open>jwt.JWTError\<close> named by an \<open>except\<close> clause of \<open>security.py\<close>: \<open>None\<close> when the
  module has no such attribute (PyJWT has none), otherwise the test of which exceptions
  the class covers.
\<close>

record 'tok jwt_lib =
  jwt_encode :: "claims \<Rightarrow> string \<Rightarrow> string \<Rightarrow> 'tok"
  jwt_decode :: "'tok \<Rightarrow> string \<Rightarrow> string list \<Rightarrow> int \<Rightarrow> exn + claims"
  JWTError :: "(exn \<Rightarrow> bool) option"

text \<open>
  What the libraries promise, as far as the properties below need it. A token is
  presented too early when the current time is before its \<open>nbf\<close> claim, and it has
  expired when its \<open>exp\<close> claim is not after the current time. \<open>token_checks\<close>: decoding,
  under the key and algorithm it was signed with, a token the library encoded gives the
  claims back, unless the token is presented too early or has expired. \<open>sound_bcrypt\<close>:
  a blob produced for a password is accepted for that password and for no other (the
  ideal the spec calls overwhelming probability).
\<close>

definition immature :: "claims \<Rightarrow> int \<Rightarrow> bool" where
  "immature payload now = (case payload ''nbf'' of Some (JNum n) \<Rightarrow> now < n | _ \<Rightarrow> False)"

definition expired :: "claims \<Rightarrow> int \<Rightarrow> bool" where
  "expired payload now = (case payload ''exp'' of Some (JNum e) \<Rightarrow> e \<le> now | _ \<Rightarrow> False)"

definition token_checks :: "'tok jwt_lib \<Rightarrow> settings \<Rightarrow> int \<Rightarrow> bool" where
  "token_checks lib cfg now =
     (\<forall>c. jwt_decode lib (jwt_encode lib c (SECRET_KEY cfg) (ALGORITHM cfg))
            (SECRET_KEY cfg) [ALGORITHM cfg] now =
          (if immature c now then Inl ImmatureSignatureError
           else if expired c now then Inl ExpiredSignatureError
           else Inr c))"

definition sound_bcrypt :: "bcrypt_lib \<Rightarrow> bool" where
  "sound_bcrypt blib =
     (\<forall>p s h q. hashpw blib p s = Inr h \<longrightarrow> checkpw blib q h = Inr (q = p))"

section \<open>\<open>app/crud/security.py\<close>\<close>

text \<open>
  \<open>create_access_token\<close>: the clock reading \<open>datetime.now\<close> is the argument \<open>now\<close>; the
  subject is given as the text \<open>str(subject)\<close> yields and the role as its string value.
  \<open>if expires_delta:\<close> is a truthiness test: an absent duration and a duration of zero
  both take the \<open>else\<close> branch.
\<close>

definition create_access_token ::
  "'tok jwt_lib \<Rightarrow> settings \<Rightarrow> int \<Rightarrow> string \<Rightarrow> string \<Rightarrow> int option \<Rightarrow> 'tok" where
  "create_access_token lib cfg now subject role_str expires_delta =
     (let expire =
            (case expires_delta of
               Some d \<Rightarrow> if d \<noteq> 0 then now + d
                         else now + minutes (ACCESS_TOKEN_EXPIRE_MINUTES cfg)
             | None \<Rightarrow> now + minutes (ACCESS_TOKEN_EXPIRE_MINUTES cfg));
          to_encode = [''exp'' \<mapsto> JNum expire, ''sub'' \<mapsto> JStr subject, ''role'' \<mapsto> JStr role_str]
      in jwt_encode lib to_encode (SECRET_KEY cfg) (ALGORITHM cfg))"

definition verify_password :: "bcrypt_lib \<Rightarrow> pyval \<Rightarrow> pyval \<Rightarrow> exn + bool" where
  "verify_password blib plain_password hashed =
     (case py_bytes plain_password of
        Inl e \<Rightarrow> Inl e
      | Inr p \<Rightarrow>
          (case py_bytes hashed of
             Inl e \<Rightarrow> Inl e
           | Inr h \<Rightarrow> checkpw blib p h))"

definition get_password_hash :: "bcrypt_lib \<Rightarrow> string \<Rightarrow> pyval \<Rightarrow> exn + pyval" where
  "get_password_hash blib salt password =
     (case py_bytes password of
        Inl e \<Rightarrow> Inl e
      | Inr p \<Rightarrow>
          (case hashpw blib p salt of
             Inl e \<Rightarrow> Inl e
           | Inr h \<Rightarrow> Inr (PBytes h)))"

text \<open>
  \<open>verify_password_reset_token\<close>: both an exception of \<open>jwt.decode\<close> and the \<open>KeyError\<close> of
  \<open>decoded_token["sub"]\<close> reach the clause \<open>except jwt.JWTError\<close>. Looking the attribute up
  raises \<open>AttributeError\<close> when the module does not define it.
\<close>

definition except_JWTError :: "'tok jwt_lib \<Rightarrow> exn \<Rightarrow> exn + jval option" where
  "except_JWTError lib e =
     (case JWTError lib of
        None \<Rightarrow> Inl AttributeError
      | Some covers \<Rightarrow> if covers e then Inr None else Inl e)"

definition verify_password_reset_token ::
  "'tok jwt_lib \<Rightarrow> settings \<Rightarrow> int \<Rightarrow> 'tok \<Rightarrow> exn + jval option" where
  "verify_password_reset_token lib cfg now token =
     (case jwt_decode lib token (SECRET_KEY cfg) [ALGORITHM cfg] now of
        Inl e \<Rightarrow> except_JWTError lib e
      | Inr decoded_token \<Rightarrow>
          (case decoded_token ''sub'' of
             None \<Rightarrow> except_JWTError lib KeyError
           | Some s \<Rightarrow> Inr (Some s)))"

definition generate_password_reset_token ::
  "'tok jwt_lib \<Rightarrow> settings \<Rightarrow> int \<Rightarrow> string \<Rightarrow> 'tok" where
  "generate_password_reset_token lib cfg now addr =
     (let delta = hours (EMAIL_RESET_TOKEN_EXPIRE_HOURS cfg);
          expires = now + delta
      in jwt_encode lib [''exp'' \<mapsto> JNum expires, ''nbf'' \<mapsto> JNum now, ''sub'' \<mapsto> JStr addr]
           (SECRET_KEY cfg) (ALGORITHM cfg))"

section \<open>The data model and the identity store\<close>

datatype UserRole = USER | ADMIN

fun role_value :: "UserRole \<Rightarrow> string" where
  "role_value USER = ''user''"
| "role_value ADMIN = ''admin''"

text \<open>
  Modelled from the spec: the table class \<open>User\<close> of \<open>app/migrations/tables.py\<close>, which
  the handlers import and which is not among the source files. The spec's Identity has a
  unique identifier, an email, a username, a stored password hash, an active flag and a
  role; the handlers read exactly these attributes. The identifier is a UUID, kept as
  its text, which is what \<open>str(user.id)\<close> puts into a token. The column
  \<open>hashed_password\<close> is declared \<open>str\<close>: the store holds text and returns \<open>str\<close>.
\<close>

record user =
  user_id :: string
  email :: string
  username :: string
  hashed_password :: string
  is_active :: bool
  role :: UserRole

text \<open>
  The store is the list of rows in the order the database returns them;
  \<open>select(User).where(c).first()\<close> is the first row satisfying \<open>c\<close>, and a commit of a
  changed row is an \<open>UPDATE\<close> by primary key. A \<open>bytes\<close> value assigned to the text column
  is stored as its characters. The uniqueness constraints of the table are not modelled:
  no commit is refused.
\<close>

definition first_where :: "(user \<Rightarrow> bool) \<Rightarrow> user list \<Rightarrow> user option" where
  "first_where c db = find c db"

definition column_text :: "pyval \<Rightarrow> string" where
  "column_text v = (case v of PStr s \<Rightarrow> s | PBytes b \<Rightarrow> b)"

definition commit :: "user \<Rightarrow> user list \<Rightarrow> user list" where
  "commit u db = map (\<lambda>r. if user_id r = user_id u then u else r) db"

text \<open>
  Modelled from the spec: the class \<open>TokenPayload\<close> of \<open>app/models/token.py\<close>, not among
  the source files: the subject and the role of an access token's claim set.
\<close>

record TokenPayload =
  sub :: jval
  token_role :: "jval option"

section \<open>\<open>app/crud/auth.py\<close>\<close>

definition credentials_exception :: exn where
  "credentials_exception = HTTPException 401 ''Could not validate credentials''"

definition inactive_user :: exn where
  "inactive_user = HTTPException 400 ''Inactive user''"

text \<open>The \<open>try\<close> block of \<open>get_current_user\<close>: the access-token decoder.\<close>

definition decode_access_token ::
  "'tok jwt_lib \<Rightarrow> settings \<Rightarrow> int \<Rightarrow> 'tok \<Rightarrow> exn + TokenPayload" where
  "decode_access_token lib cfg now token =
     (case jwt_decode lib token (SECRET_KEY cfg) [ALGORITHM cfg] now of
        Inl e \<Rightarrow> if isinstance_DecodeError e then Inl credentials_exception else Inl e
      | Inr payload \<Rightarrow>
          (case payload ''sub'' of
             None \<Rightarrow> Inl credentials_exception
           | Some uid \<Rightarrow> Inr \<lparr>sub = uid, token_role = payload ''role''\<rparr>))"

definition get_current_user ::
  "'tok jwt_lib \<Rightarrow> settings \<Rightarrow> int \<Rightarrow> user list \<Rightarrow> 'tok \<Rightarrow> exn + user" where
  "get_current_user lib cfg now db token =
     (case decode_access_token lib cfg now token of
        Inl e \<Rightarrow> Inl e
      | Inr token_data \<Rightarrow>
          (case first_where (\<lambda>u. JStr (user_id u) = sub token_data) db of
             None \<Rightarrow> Inl credentials_exception
           | Some u \<Rightarrow> if \<not> is_active u then Inl inactive_user else Inr u))"

definition get_current_active_user :: "user \<Rightarrow> exn + user" where
  "get_current_active_user current_user =
     (if \<not> is_active current_user then Inl inactive_user else Inr current_user)"

definition get_current_admin_user :: "user \<Rightarrow> exn + user" where
  "get_current_admin_user current_user =
     (if role current_user \<noteq> ADMIN
      then Inl (HTTPException 403 ''The user doesn't have enough privileges'')
      else Inr current_user)"

text \<open>\<open>Depends(f)\<close>: the dependency is resolved first; its exception ends the request.\<close>

definition depends :: "exn + 'a \<Rightarrow> ('a \<Rightarrow> exn + 'b) \<Rightarrow> exn + 'b" where
  "depends dep handler = (case dep of Inl e \<Rightarrow> Inl e | Inr x \<Rightarrow> handler x)"

definition authenticate_user ::
  "bcrypt_lib \<Rightarrow> user list \<Rightarrow> string \<Rightarrow> string \<Rightarrow> exn + user option" where
  "authenticate_user blib db login password =
     (case first_where (\<lambda>u. email u = login \<or> username u = login) db of
        None \<Rightarrow> Inr None
      | Some u \<Rightarrow>
          (case verify_password blib (PStr password) (PStr (hashed_password u)) of
             Inl e \<Rightarrow> Inl e
           | Inr ok \<Rightarrow> if \<not> ok then Inr None else Inr (Some u)))"

section \<open>\<open>app/routes/auth.py\<close>\<close>

record 'tok Token =
  access_token :: 'tok
  token_type :: string

definition login_access_token ::
  "'tok jwt_lib \<Rightarrow> bcrypt_lib \<Rightarrow> settings \<Rightarrow> int \<Rightarrow> user list \<Rightarrow> string \<Rightarrow> string
     \<Rightarrow> exn + 'tok Token" where
  "login_access_token lib blib cfg now db form_username form_password =
     (case authenticate_user blib db form_username form_password of
        Inl e \<Rightarrow> Inl e
      | Inr None \<Rightarrow> Inl (HTTPException 401 ''Incorrect username or password'')
      | Inr (Some u) \<Rightarrow>
          if \<not> is_active u then Inl inactive_user
          else
            (let access_token_expires = minutes (ACCESS_TOKEN_EXPIRE_MINUTES cfg)
             in Inr \<lparr>access_token =
                       create_access_token lib cfg now (user_id u) (role_value (role u))
                         (Some access_token_expires),
                     token_type = ''bearer''\<rparr>))"

text \<open>Python truthiness of a claim value: \<open>if not email\<close>.\<close>

fun truthy :: "jval \<Rightarrow> bool" where
  "truthy (JStr s) = (s \<noteq> [])"
| "truthy (JNum n) = (n \<noteq> 0)"

definition reset_password_confirm ::
  "'tok jwt_lib \<Rightarrow> bcrypt_lib \<Rightarrow> settings \<Rightarrow> int \<Rightarrow> string \<Rightarrow> user list \<Rightarrow> 'tok \<Rightarrow> string
     \<Rightarrow> exn + string \<times> user list" where
  "reset_password_confirm lib blib cfg now salt db token new_password =
     (case verify_password_reset_token lib cfg now token of
        Inl e \<Rightarrow> Inl e
      | Inr None \<Rightarrow> Inl (HTTPException 400 ''Invalid token'')
      | Inr (Some addr) \<Rightarrow>
          if \<not> truthy addr then Inl (HTTPException 400 ''Invalid token'')
          else
            (case first_where (\<lambda>u. JStr (email u) = addr) db of
               None \<Rightarrow> Inl (HTTPException 404 ''User not found'')
             | Some u \<Rightarrow>
                 (case get_password_hash blib salt (PStr new_password) of
                    Inl e \<Rightarrow> Inl e
                  | Inr h \<Rightarrow>
                      Inr (''Password updated successfully'',
                           commit (u\<lparr>hashed_password := column_text h\<rparr>) db))))"

section \<open>\<open>app/routes/users.py\<close>\<close>

text \<open>
  \<open>UserUpdate\<close> (\<open>app/models/user.py\<close>): every field may be left unset by the request,
  and \<open>exclude_unset=True\<close> drops the unset ones from the dictionary. The identifier and
  the two timestamps inherited from the base table, and explicit nulls, are not modelled.
\<close>

record UserUpdate =
  email_in :: "string option"
  username_in :: "string option"
  is_active_in :: "bool option"
  role_in :: "UserRole option"
  password_in :: "string option"

text \<open>
  The dictionary \<open>update_data\<close>: its entries in insertion order, each a key with a value
  of the key's type.
\<close>

datatype entry =
    Email string
  | Username string
  | Is_active bool
  | Role UserRole
  | Password string
  | Hashed_password pyval

fun key :: "entry \<Rightarrow> string" where
  "key (Email _) = ''email''"
| "key (Username _) = ''username''"
| "key (Is_active _) = ''is_active''"
| "key (Role _) = ''role''"
| "key (Password _) = ''password''"
| "key (Hashed_password _) = ''hashed_password''"

definition model_dump :: "UserUpdate \<Rightarrow> entry list" where
  "model_dump user_in =
     (case email_in user_in of None \<Rightarrow> [] | Some v \<Rightarrow> [Email v]) @
     (case username_in user_in of None \<Rightarrow> [] | Some v \<Rightarrow> [Username v]) @
     (case is_active_in user_in of None \<Rightarrow> [] | Some v \<Rightarrow> [Is_active v]) @
     (case role_in user_in of None \<Rightarrow> [] | Some v \<Rightarrow> [Role v]) @
     (case password_in user_in of None \<Rightarrow> [] | Some v \<Rightarrow> [Password v])"

fun get_password :: "entry list \<Rightarrow> string option" where
  "get_password [] = None"
| "get_password (Password p # _) = Some p"
| "get_password (_ # es) = get_password es"

text \<open>
  The lines \<open>if "password" in update_data and update_data["password"]\<close>: a non-empty
  password is hashed, the hash is added under \<open>hashed_password\<close> and the key \<open>password\<close>
  is deleted. Otherwise the dictionary is left as it is, the key \<open>password\<close> included.
\<close>

definition hash_update_data ::
  "bcrypt_lib \<Rightarrow> string \<Rightarrow> entry list \<Rightarrow> exn + entry list" where
  "hash_update_data blib salt update_data =
     (case get_password update_data of
        None \<Rightarrow> Inr update_data
      | Some p \<Rightarrow>
          if p = [] then Inr update_data
          else
            (case get_password_hash blib salt (PStr p) of
               Inl e \<Rightarrow> Inl e
             | Inr h \<Rightarrow>
                 Inr (filter (\<lambda>e. key e \<noteq> ''password'') (update_data @ [Hashed_password h]))))"

text \<open>
  \<open>setattr(user, field, value)\<close> on the table object. \<open>User\<close> has no field \<open>password\<close>:
  the model class refuses the assignment with \<open>ValueError\<close> (object has no field).
\<close>

fun setattr :: "user \<Rightarrow> entry \<Rightarrow> exn + user" where
  "setattr u (Email v) = Inr (u\<lparr>email := v\<rparr>)"
| "setattr u (Username v) = Inr (u\<lparr>username := v\<rparr>)"
| "setattr u (Is_active v) = Inr (u\<lparr>is_active := v\<rparr>)"
| "setattr u (Role v) = Inr (u\<lparr>role := v\<rparr>)"
| "setattr u (Hashed_password v) = Inr (u\<lparr>hashed_password := column_text v\<rparr>)"
| "setattr u (Password v) = Inl ValueError"

fun setattr_items :: "user \<Rightarrow> entry list \<Rightarrow> exn + user" where
  "setattr_items u [] = Inr u"
| "setattr_items u (e # es) =
     (case setattr u e of Inl x \<Rightarrow> Inl x | Inr u' \<Rightarrow> setattr_items u' es)"

text \<open>The block under \<open># Update user\<close>, the same in \<open>update_user_me\<close> and \<open>update_user\<close>:
  the updated row and the store after the commit.\<close>

definition update_row ::
  "bcrypt_lib \<Rightarrow> string \<Rightarrow> user list \<Rightarrow> user \<Rightarrow> UserUpdate \<Rightarrow> exn + user \<times> user list" where
  "update_row blib salt db u user_in =
     (case hash_update_data blib salt (model_dump user_in) of
        Inl e \<Rightarrow> Inl e
      | Inr update_data \<Rightarrow>
          (case setattr_items u update_data of
             Inl e \<Rightarrow> Inl e
           | Inr u' \<Rightarrow> Inr (u', commit u' db)))"

definition taken :: "(user \<Rightarrow> string) \<Rightarrow> string option \<Rightarrow> user \<Rightarrow> user list \<Rightarrow> bool" where
  "taken field v current_user db =
     (case v of
        None \<Rightarrow> False
      | Some x \<Rightarrow> x \<noteq> [] \<and> x \<noteq> field current_user \<and> first_where (\<lambda>u. field u = x) db \<noteq> None)"

definition read_user_me ::
  "'tok jwt_lib \<Rightarrow> settings \<Rightarrow> int \<Rightarrow> user list \<Rightarrow> 'tok \<Rightarrow> exn + user" where
  "read_user_me lib cfg now db token =
     depends (depends (get_current_user lib cfg now db token) get_current_active_user)
       (\<lambda>current_user. Inr current_user)"

definition update_user_me ::
  "'tok jwt_lib \<Rightarrow> bcrypt_lib \<Rightarrow> settings \<Rightarrow> int \<Rightarrow> string \<Rightarrow> user list \<Rightarrow> 'tok \<Rightarrow> UserUpdate
     \<Rightarrow> exn + user \<times> user list" where
  "update_user_me lib blib cfg now salt db token user_in =
     depends (depends (get_current_user lib cfg now db token) get_current_active_user)
       (\<lambda>current_user.
          if taken email (email_in user_in) current_user db
          then Inl (HTTPException 400 ''Email already registered'')
          else if taken username (username_in user_in) current_user db
          then Inl (HTTPException 400 ''Username already registered'')
          else update_row blib salt db current_user user_in)"

definition read_users ::
  "'tok jwt_lib \<Rightarrow> settings \<Rightarrow> int \<Rightarrow> user list \<Rightarrow> 'tok \<Rightarrow> nat \<Rightarrow> nat \<Rightarrow> exn + user list" where
  "read_users lib cfg now db token skip limit =
     depends (depends (get_current_user lib cfg now db token) get_current_admin_user)
       (\<lambda>current_user. Inr (take limit (drop skip db)))"

definition read_user_by_id ::
  "'tok jwt_lib \<Rightarrow> settings \<Rightarrow> int \<Rightarrow> user list \<Rightarrow> 'tok \<Rightarrow> string \<Rightarrow> exn + user" where
  "read_user_by_id lib cfg now db token uid =
     depends (depends (get_current_user lib cfg now db token) get_current_admin_user)
       (\<lambda>current_user.
          case first_where (\<lambda>u. user_id u = uid) db of
            None \<Rightarrow> Inl (HTTPException 404 ''User not found'')
          | Some u \<Rightarrow> Inr u)"

definition update_user ::
  "'tok jwt_lib \<Rightarrow> bcrypt_lib \<Rightarrow> settings \<Rightarrow> int \<Rightarrow> string \<Rightarrow> user list \<Rightarrow> 'tok \<Rightarrow> string
     \<Rightarrow> UserUpdate \<Rightarrow> exn + user \<times> user list" where
  "update_user lib blib cfg now salt db token uid user_in =
     depends (depends (get_current_user lib cfg now db token) get_current_admin_user)
       (\<lambda>current_user.
          case first_where (\<lambda>u. user_id u = uid) db of
            None \<Rightarrow> Inl (HTTPException 404 ''User not found'')
          | Some u \<Rightarrow> update_row blib salt db u user_in)"

section \<open>Symbolic libraries for evaluating the code\<close>

text \<open>
  An idealised bcrypt for running the code on concrete inputs: a salt is the 29
  characters \<open>$2b$12$\<close> and 22 more, the blob is the salt followed by a digest, here the
  password itself. As in bcrypt, \<open>hashpw\<close> accepts a blob in place of the salt and uses
  its first 29 characters, raises \<open>ValueError\<close> (invalid salt) on anything else, and
  \<open>checkpw\<close> hashes again with the blob as salt and compares.
\<close>

definition sym_hashpw :: "string \<Rightarrow> string \<Rightarrow> exn + string" where
  "sym_hashpw p s =
     (if take 7 s = ''$2b$12$'' \<and> 29 \<le> length s then Inr (take 29 s @ p) else Inl ValueError)"

definition sym_checkpw :: "string \<Rightarrow> string \<Rightarrow> exn + bool" where
  "sym_checkpw p h = (case sym_hashpw p h of Inl e \<Rightarrow> Inl e | Inr h' \<Rightarrow> Inr (h' = h))"

definition sym_bcrypt :: bcrypt_lib where
  "sym_bcrypt = \<lparr>hashpw = sym_hashpw, checkpw = sym_checkpw\<rparr>"

text \<open>
  A symbolic JWT library in the manner of PyJWT: a token is either the claims signed
  with a key under an algorithm, or a string that does not parse. Decoding rejects an
  algorithm that is not accepted, then a wrong key, then a token presented before
  \<open>nbf\<close>, then a token whose \<open>exp\<close> is not after the current time. The module has no
  attribute \<open>JWTError\<close>.
\<close>

datatype sym_token = Signed string string claims | Garbled string

definition sym_decode :: "sym_token \<Rightarrow> string \<Rightarrow> string list \<Rightarrow> int \<Rightarrow> exn + claims" where
  "sym_decode token k algorithms now =
     (case token of
        Garbled s \<Rightarrow> Inl DecodeError
      | Signed k' a payload \<Rightarrow>
          if a \<notin> set algorithms then Inl InvalidAlgorithmError
          else if k' \<noteq> k then Inl InvalidSignatureError
          else if immature payload now then Inl ImmatureSignatureError
          else if expired payload now then Inl ExpiredSignatureError
          else Inr payload)"

definition sym_jwt :: "sym_token jwt_lib" where
  "sym_jwt = \<lparr>jwt_encode = (\<lambda>payload k a. Signed k a payload),
              jwt_decode = sym_decode,
              JWTError = None\<rparr>"

text \<open>The configuration defaults of \<open>config.py\<close>, with a fixed key.\<close>

definition cfg0 :: settings where
  "cfg0 = \<lparr>SECRET_KEY = ''k'', ALGORITHM = ''HS256'',
           ACCESS_TOKEN_EXPIRE_MINUTES = 30, EMAIL_RESET_TOKEN_EXPIRE_HOURS = 48\<rparr>"

definition salt0 :: string where
  "salt0 = ''$2b$12$abcdefghijklmnopqrstuv''"

definition salt1 :: string where
  "salt1 = ''$2b$12$ABCDEFGHIJKLMNOPQRSTUV''"

text \<open>A store of three rows: the initial administrator of \<open>crud.py\<close>, an active user
  and a deactivated user, with blobs of the symbolic bcrypt.\<close>

definition admin :: user where
  "admin = \<lparr>user_id = ''u0'', email = ''admin@amref.com'', username = ''admin'',
            hashed_password = salt0 @ ''admin'', is_active = True, role = ADMIN\<rparr>"

definition alice :: user where
  "alice = \<lparr>user_id = ''u1'', email = ''a@x.com'', username = ''a'',
            hashed_password = salt0 @ ''secret1'', is_active = True, role = USER\<rparr>"

definition bob :: user where
  "bob = \<lparr>user_id = ''u2'', email = ''b@x.com'', username = ''b'',
          hashed_password = salt1 @ ''hunter2'', is_active = False, role = USER\<rparr>"

definition db0 :: "user list" where
  "db0 = [admin, alice, bob]"

text \<open>A store in which a user has registered another user's email as username, and a
  store with a row whose hash is not bcrypt output.\<close>

definition mallory :: user where
  "mallory = \<lparr>user_id = ''u4'', email = ''m@x.com'', username = ''a@x.com'',
              hashed_password = salt1 @ ''letmein'', is_active = True, role = USER\<rparr>"

definition db1 :: "user list" where
  "db1 = [mallory, alice]"

definition carol :: user where
  "carol = \<lparr>user_id = ''u3'', email = ''c@x.com'', username = ''c'',
            hashed_password = ''not-a-hash'', is_active = True, role = USER\<rparr>"

definition db2 :: "user list" where
  "db2 = [carol]"

section \<open>Facts about the symbolic libraries and the store\<close>

lemmas sym_defs =
  sym_jwt_def sym_decode_def immature_def expired_def cfg0_def minutes_def hours_def
  sym_bcrypt_def sym_checkpw_def sym_hashpw_def salt0_def salt1_def

lemmas data_defs = db0_def admin_def alice_def bob_def

lemmas code_defs =
  get_current_user_def decode_access_token_def create_access_token_def first_where_def
  credentials_exception_def inactive_user_def verify_password_def py_bytes_def
  get_password_hash_def authenticate_user_def verify_password_reset_token_def
  except_JWTError_def generate_password_reset_token_def reset_password_confirm_def
  commit_def column_text_def depends_def get_current_active_user_def
  get_current_admin_user_def

lemma sym_jwt_token_checks: "token_checks sym_jwt cfg now"
  by (simp add: token_checks_def sym_jwt_def sym_decode_def)

lemma sym_bcrypt_sound: "sound_bcrypt sym_bcrypt"
  by (auto simp: sound_bcrypt_def sym_bcrypt_def sym_checkpw_def sym_hashpw_def
      split: if_splits)

text \<open>The lookup finds nothing exactly when no row satisfies the condition, and it
  returns a row exactly when that row satisfies it and no row before it does.\<close>

lemma first_where_None_iff: "(first_where c db = None) = (\<forall>r\<in>set db. \<not> c r)"
  by (auto simp: first_where_def find_None_iff)

lemma first_where_first:
  assumes "\<forall>r\<in>set pre. \<not> c r" and "c u"
  shows "first_where c (pre @ u # post) = Some u"
  using assms by (induction pre) (simp_all add: first_where_def)

lemma first_where_SomeD:
  assumes "first_where c db = Some u"
  shows "\<exists>pre post. db = pre @ u # post \<and> (\<forall>r\<in>set pre. \<not> c r) \<and> c u"
  using assms
proof (induction db)
  case Nil
  then show ?case by (simp add: first_where_def)
next
  case (Cons x xs)
  show ?case
  proof (cases "c x")
    case True
    with Cons.prems have "u = x" by (simp add: first_where_def)
    with True have "x # xs = [] @ u # xs \<and> (\<forall>r\<in>set []. \<not> c r) \<and> c u" by simp
    then show ?thesis by blast
  next
    case False
    with Cons.prems have "first_where c xs = Some u" by (simp add: first_where_def)
    with Cons.IH obtain pre post where
      "xs = pre @ u # post" "\<forall>r\<in>set pre. \<not> c r" "c u" by blast
    with False have "x # xs = (x # pre) @ u # post \<and> (\<forall>r\<in>set (x # pre). \<not> c r) \<and> c u"
      by simp
    then show ?thesis by blast
  qed
qed

text \<open>After the commit of a changed row that keeps its key and its email, the lookup by
  that email returns the changed row.\<close>

lemma first_where_commit:
  assumes "first_where (\<lambda>r. email r = e) db = Some u"
    and "user_id u' = user_id u" and "email u' = e"
  shows "first_where (\<lambda>r. email r = e) (commit u' db) = Some u'"
  using assms
proof (induction db)
  case Nil
  then show ?case by (simp add: first_where_def)
next
  case (Cons x xs)
  show ?case
  proof (cases "email x = e")
    case True
    with Cons.prems have "u = x" by (simp add: first_where_def)
    with Cons.prems True show ?thesis by (simp add: first_where_def commit_def)
  next
    case False
    with Cons.prems have "first_where (\<lambda>r. email r = e) xs = Some u"
      by (simp add: first_where_def)
    with Cons.IH Cons.prems have "first_where (\<lambda>r. email r = e) (commit u' xs) = Some u'"
      by simp
    with False Cons.prems show ?thesis by (simp add: first_where_def commit_def)
  qed
qed

section \<open>Password hasher\<close>

text \<open>\<open>get_password_hash\<close> returns \<open>bytes\<close>, whatever the library, and \<open>verify_password\<close>
  raises \<open>TypeError\<close> on a hash given as \<open>bytes\<close>.\<close>

lemma get_password_hash_bytes:
  "get_password_hash blib salt p = Inr v \<Longrightarrow> \<exists>h. v = PBytes h"
  by (auto simp: get_password_hash_def split: sum.splits)

lemma verify_password_bytes: "verify_password blib p (PBytes h) = Inl TypeError"
  by (simp add: verify_password_def py_bytes_def split: pyval.splits sum.splits)

text \<open>
  Claim C1 (hash then verify returns true, with a fresh salt per call). The code does not
  do this: \<open>get_password_hash\<close> hands back the \<open>bytes\<close> of \<open>bcrypt.hashpw\<close>, and
  \<open>verify_password\<close> converts its second argument with \<open>bytes(..., encoding=...)\<close>, which
  accepts a \<open>str\<close> only. For the plaintext \<open>secret1\<close> the hash is produced and verifying
  the plaintext against it raises \<open>TypeError\<close>.
\<close>

theorem hash_then_verify_raises_TypeError:
  "get_password_hash sym_bcrypt salt0 (PStr ''secret1'') = Inr (PBytes (salt0 @ ''secret1''))
   \<and> verify_password sym_bcrypt (PStr ''secret1'') (PBytes (salt0 @ ''secret1''))
       = Inl TypeError"
  by (simp add: code_defs sym_defs)

text \<open>
  Claim C4 as stated (verify returns false and never raises on a malformed blob) fails:
  on the blob \<open>not-a-hash\<close> the library raises \<open>ValueError\<close> (invalid salt) and
  \<open>verify_password\<close> lets it through.
\<close>

theorem verify_malformed_blob_raises:
  "verify_password sym_bcrypt (PStr ''secret1'') (PStr ''not-a-hash'') = Inl ValueError
   \<and> verify_password sym_bcrypt (PStr ''secret1'') (PStr ''not-a-hash'') \<noteq> Inr False"
  by (simp add: code_defs sym_defs)

text \<open>
  Claim C4, amended: for every plaintext string and every blob string, \<open>verify_password\<close>
  gives exactly the outcome of the library's \<open>checkpw\<close> on their encodings: its verdict
  when it gives one, its exception when it raises. It has no handler of its own.
\<close>

theorem verify_password_is_checkpw:
  "verify_password blib (PStr p) (PStr h) = checkpw blib p h"
  by (simp add: verify_password_def py_bytes_def)

section \<open>Token codec\<close>

text \<open>
  Claim C2 as stated (decoding fails once issue-time + ttl has passed) fails for a ttl of
  zero: \<open>if expires_delta:\<close> takes a zero duration for an absent one, the token gets the
  configured 30 minutes, and one second after issue it still decodes.
\<close>

theorem zero_ttl_token_outlives_ttl:
  "decode_access_token sym_jwt cfg0 1
     (create_access_token sym_jwt cfg0 0 ''u1'' ''user'' (Some 0))
   = Inr \<lparr>sub = JStr ''u1'', token_role = Some (JStr ''user'')\<rparr>"
  by (simp add: code_defs sym_defs)

text \<open>
  Claim C2, amended: for every subject, role and ttl, the access-token decoder applied to
  the issued token returns the same subject and role as long as the current time is
  before the embedded expiry, and fails (expired signature) from the expiry on; the
  expiry is issue-time + ttl for a ttl that is given and not zero, and issue-time + the
  configured duration for a ttl that is absent or zero.
\<close>

theorem access_token_round_trip:
  assumes "token_checks lib cfg now"
  shows "decode_access_token lib cfg now (create_access_token lib cfg issued subject r ttl) =
     (if now < issued + (case ttl of
                           None \<Rightarrow> minutes (ACCESS_TOKEN_EXPIRE_MINUTES cfg)
                         | Some d \<Rightarrow> if d = 0 then minutes (ACCESS_TOKEN_EXPIRE_MINUTES cfg) else d)
      then Inr \<lparr>sub = JStr subject, token_role = Some (JStr r)\<rparr>
      else Inl ExpiredSignatureError)"
  using assms
  by (auto simp: token_checks_def decode_access_token_def create_access_token_def Let_def
      immature_def expired_def split: option.splits)

theorem access_token_round_trip_witness:
  "decode_access_token sym_jwt cfg0 100
     (create_access_token sym_jwt cfg0 0 ''u1'' ''user'' (Some 600))
   = Inr \<lparr>sub = JStr ''u1'', token_role = Some (JStr ''user'')\<rparr>
   \<and> decode_access_token sym_jwt cfg0 600
     (create_access_token sym_jwt cfg0 0 ''u1'' ''user'' (Some 600))
   = Inl ExpiredSignatureError"
  using access_token_round_trip[OF sym_jwt_token_checks, where cfg=cfg0 and now=100
      and issued=0 and subject="''u1''" and r="''user''" and ttl="Some 600"]
    access_token_round_trip[OF sym_jwt_token_checks, where cfg=cfg0 and now=600
      and issued=0 and subject="''u1''" and r="''user''" and ttl="Some 600"]
  by simp

section \<open>Access guard\<close>

text \<open>The failures that \<open>get_current_user\<close> does report as 401: a decode error or a bad
  signature, a payload without subject, a subject that no stored user has. All three give
  the same exception.\<close>

lemma get_current_user_unauthenticated:
  "(\<exists>e. jwt_decode lib token (SECRET_KEY cfg) [ALGORITHM cfg] now = Inl e
        \<and> isinstance_DecodeError e)
   \<or> (\<exists>c. jwt_decode lib token (SECRET_KEY cfg) [ALGORITHM cfg] now = Inr c \<and> c ''sub'' = None)
   \<or> (\<exists>td. decode_access_token lib cfg now token = Inr td
          \<and> first_where (\<lambda>r. JStr (user_id r) = sub td) db = None)
   \<Longrightarrow> get_current_user lib cfg now db token = Inl credentials_exception"
  by (auto simp: get_current_user_def decode_access_token_def)

text \<open>An expired signature is not a decode error: the handler does not catch it.\<close>

lemma expiry_not_caught:
  "jwt_decode lib token (SECRET_KEY cfg) [ALGORITHM cfg] now = Inl ExpiredSignatureError
   \<Longrightarrow> get_current_user lib cfg now db token = Inl ExpiredSignatureError"
  by (simp add: get_current_user_def decode_access_token_def)

text \<open>
  Claim C3 (resolve fails as unauthenticated whenever decoding fails, expiry included).
  The code does not do this for an expired token: a token issued at time 0 with the
  default 30 minutes and presented at second 1800 makes \<open>get_current_user\<close> raise the
  library's \<open>ExpiredSignatureError\<close>, not the 401 \<open>credentials_exception\<close>.
\<close>

theorem expired_token_not_unauthenticated:
  "get_current_user sym_jwt cfg0 1800 db0 (create_access_token sym_jwt cfg0 0 ''u1'' ''user'' None)
     = Inl ExpiredSignatureError
   \<and> Inl ExpiredSignatureError \<noteq> (Inl credentials_exception :: exn + user)"
  by (simp add: code_defs sym_defs)

text \<open>
  Claim C9: a token whose subject is a stored user with the active flag off is rejected
  with the inactive-user error by \<open>get_current_user\<close> itself, hence by both guards built
  on it and by every guarded endpoint, the administrator-only ones included.
\<close>

theorem inactive_token_rejected_everywhere:
  assumes "decode_access_token lib cfg now token = Inr token_data"
    and "first_where (\<lambda>r. JStr (user_id r) = sub token_data) db = Some u"
    and "\<not> is_active u"
  shows "get_current_user lib cfg now db token = Inl inactive_user
       \<and> depends (get_current_user lib cfg now db token) get_current_active_user
           = Inl inactive_user
       \<and> depends (get_current_user lib cfg now db token) get_current_admin_user
           = Inl inactive_user
       \<and> read_user_me lib cfg now db token = Inl inactive_user
       \<and> update_user_me lib blib cfg now salt db token user_in = Inl inactive_user
       \<and> read_users lib cfg now db token skip limit = Inl inactive_user
       \<and> read_user_by_id lib cfg now db token uid = Inl inactive_user
       \<and> update_user lib blib cfg now salt db token uid user_in = Inl inactive_user"
proof -
  have "get_current_user lib cfg now db token = Inl inactive_user"
    using assms by (simp add: get_current_user_def)
  then show ?thesis
    by (simp add: depends_def read_user_me_def update_user_me_def read_users_def
        read_user_by_id_def update_user_def)
qed

theorem inactive_token_rejected_everywhere_witness:
  "get_current_user sym_jwt cfg0 60 db0 (create_access_token sym_jwt cfg0 0 ''u2'' ''user'' None)
     = Inl inactive_user
   \<and> read_users sym_jwt cfg0 60 db0
       (create_access_token sym_jwt cfg0 0 ''u2'' ''user'' None) 0 100
     = Inl inactive_user"
  using inactive_token_rejected_everywhere[where lib=sym_jwt and cfg=cfg0 and now=60
      and db=db0 and u=bob
      and token="create_access_token sym_jwt cfg0 0 ''u2'' ''user'' None"
      and token_data="\<lparr>sub = JStr ''u2'', token_role = Some (JStr ''user'')\<rparr>"
      and skip=0 and limit=100]
  by (simp add: decode_access_token_def create_access_token_def first_where_def
      data_defs sym_defs)

section \<open>Authenticator\<close>

text \<open>
  Claim C6 as stated (for every store state, \<open>None\<close> both for an unknown identifier and
  for a known one whose stored hash does not verify the password) fails: for a stored
  user whose hash is not bcrypt output the library raises \<open>ValueError\<close>, and
  \<open>authenticate_user\<close>, which has no handler, raises it too, while an unknown identifier
  gives \<open>None\<close>.
\<close>

theorem malformed_hash_distinguishes_failures:
  "authenticate_user sym_bcrypt db2 ''c'' ''secret1'' = Inl ValueError
   \<and> authenticate_user sym_bcrypt db2 ''nobody'' ''secret1'' = Inr None"
  by (simp add: code_defs sym_defs db2_def carol_def)

text \<open>
  Claim C6, amended: for every store, identifier and password, \<open>authenticate_user\<close>
  returns \<open>None\<close> in exactly two cases, with the same value in both: no stored row has
  the identifier as email or username, or the first stored row that has it carries a
  hash for which the library's check returns false. It raises an exception exactly when
  the library's check raises it on the hash of that first row.
\<close>

theorem authenticate_failures_identical:
  "(authenticate_user blib db login password = Inr None) =
     ((\<forall>r\<in>set db. \<not> (email r = login \<or> username r = login))
      \<or> (\<exists>pre u post. db = pre @ u # post
            \<and> (\<forall>r\<in>set pre. \<not> (email r = login \<or> username r = login))
            \<and> (email u = login \<or> username u = login)
            \<and> checkpw blib password (hashed_password u) = Inr False))
   \<and> (authenticate_user blib db login password = Inl e) =
     (\<exists>pre u post. db = pre @ u # post
            \<and> (\<forall>r\<in>set pre. \<not> (email r = login \<or> username r = login))
            \<and> (email u = login \<or> username u = login)
            \<and> checkpw blib password (hashed_password u) = Inl e)"
proof (cases "first_where (\<lambda>r. email r = login \<or> username r = login) db")
  case None
  then have none: "\<forall>r\<in>set db. \<not> (email r = login \<or> username r = login)"
    by (simp add: first_where_None_iff)
  from None have "authenticate_user blib db login password = Inr None"
    by (simp add: authenticate_user_def)
  moreover have "\<not> (\<exists>pre u post. db = pre @ u # post
            \<and> (\<forall>r\<in>set pre. \<not> (email r = login \<or> username r = login))
            \<and> (email u = login \<or> username u = login)
            \<and> checkpw blib password (hashed_password u) = Inl e)"
    using none by auto
  ultimately show ?thesis using none by simp
next
  case (Some u)
  then obtain pre post where split: "db = pre @ u # post"
      "\<forall>r\<in>set pre. \<not> (email r = login \<or> username r = login)"
      "email u = login \<or> username u = login"
    using first_where_SomeD[OF Some] by blast
  have auth: "authenticate_user blib db login password =
      (case checkpw blib password (hashed_password u) of
         Inl x \<Rightarrow> Inl x | Inr ok \<Rightarrow> if \<not> ok then Inr None else Inr (Some u))"
    using Some by (simp add: authenticate_user_def verify_password_def py_bytes_def)
  have uniq: "u' = u" if "db = pre' @ u' # post'"
      "\<forall>r\<in>set pre'. \<not> (email r = login \<or> username r = login)"
      "email u' = login \<or> username u' = login" for pre' u' post'
  proof -
    have "first_where (\<lambda>r. email r = login \<or> username r = login) (pre' @ u' # post') = Some u'"
      using that(2,3) by (rule first_where_first)
    with that(1) Some show ?thesis by simp
  qed
  have some: "\<not> (\<forall>r\<in>set db. \<not> (email r = login \<or> username r = login))"
    using split by auto
  show ?thesis
  proof (cases "checkpw blib password (hashed_password u)")
    case (Inl x)
    with auth have "authenticate_user blib db login password = Inl x" by simp
    moreover have "(\<exists>pre u' post. db = pre @ u' # post
            \<and> (\<forall>r\<in>set pre. \<not> (email r = login \<or> username r = login))
            \<and> (email u' = login \<or> username u' = login)
            \<and> checkpw blib password (hashed_password u') = Inl e) = (x = e)"
      using split uniq Inl by (metis sum.inject(1))
    moreover have "\<not> (\<exists>pre u' post. db = pre @ u' # post
            \<and> (\<forall>r\<in>set pre. \<not> (email r = login \<or> username r = login))
            \<and> (email u' = login \<or> username u' = login)
            \<and> checkpw blib password (hashed_password u') = Inr False)"
      using uniq Inl by (metis sum.distinct(1))
    ultimately show ?thesis using some by simp
  next
    case (Inr ok)
    with auth have res: "authenticate_user blib db login password
        = (if \<not> ok then Inr None else Inr (Some u))" by simp
    have "(\<exists>pre u' post. db = pre @ u' # post
            \<and> (\<forall>r\<in>set pre. \<not> (email r = login \<or> username r = login))
            \<and> (email u' = login \<or> username u' = login)
            \<and> checkpw blib password (hashed_password u') = Inr False) = (\<not> ok)"
      using split uniq Inr by (metis sum.inject(2))
    moreover have "\<not> (\<exists>pre u' post. db = pre @ u' # post
            \<and> (\<forall>r\<in>set pre. \<not> (email r = login \<or> username r = login))
            \<and> (email u' = login \<or> username u' = login)
            \<and> checkpw blib password (hashed_password u') = Inl e)"
      using uniq Inr by (metis sum.distinct(1))
    ultimately show ?thesis using some res by simp
  qed
qed

theorem authenticate_failures_identical_witness:
  "authenticate_user sym_bcrypt db0 ''nobody'' ''secret1'' = Inr None
   \<and> authenticate_user sym_bcrypt db0 ''a'' ''wrong'' = Inr None
   \<and> authenticate_user sym_bcrypt db2 ''c'' ''secret1'' = Inl ValueError"
proof -
  have "\<forall>r\<in>set db0. \<not> (email r = ''nobody'' \<or> username r = ''nobody'')"
    by (simp add: data_defs)
  then have unknown: "authenticate_user sym_bcrypt db0 ''nobody'' ''secret1'' = Inr None"
    using authenticate_failures_identical[where blib=sym_bcrypt and db=db0
        and login="''nobody''" and password="''secret1''"]
    by blast
  have "db0 = [admin] @ alice # [bob]
      \<and> (\<forall>r\<in>set [admin]. \<not> (email r = ''a'' \<or> username r = ''a''))
      \<and> (email alice = ''a'' \<or> username alice = ''a'')
      \<and> checkpw sym_bcrypt ''wrong'' (hashed_password alice) = Inr False"
    by (simp add: data_defs sym_defs)
  then have mismatch: "authenticate_user sym_bcrypt db0 ''a'' ''wrong'' = Inr None"
    using authenticate_failures_identical[where blib=sym_bcrypt and db=db0
        and login="''a''" and password="''wrong''"]
    by blast
  have "db2 = [] @ carol # []
      \<and> (\<forall>r\<in>set []. \<not> (email r = ''c'' \<or> username r = ''c''))
      \<and> (email carol = ''c'' \<or> username carol = ''c'')
      \<and> checkpw sym_bcrypt ''secret1'' (hashed_password carol) = Inl ValueError"
    by (simp add: db2_def carol_def sym_defs)
  then have raised: "authenticate_user sym_bcrypt db2 ''c'' ''secret1'' = Inl ValueError"
    using authenticate_failures_identical[where blib=sym_bcrypt and db=db2
        and login="''c''" and password="''secret1''" and e=ValueError]
    by blast
  from unknown mismatch raised show ?thesis by simp
qed

text \<open>
  Claim C8 as stated (for every stored user whose email or username the identifier
  matches and whose hash verifies the password, that user is returned) fails when an
  earlier row matches the identifier in its other column: \<open>mallory\<close> has registered
  the email of \<open>alice\<close> as username, every column is still free of duplicates, and
  \<open>alice\<close> logging in with her email and her password gets \<open>None\<close>, because the
  password is checked against the first matching row only.
\<close>

theorem shadowed_user_not_authenticated:
  "alice \<in> set db1 \<and> email alice = ''a@x.com''
   \<and> verify_password sym_bcrypt (PStr ''secret1'') (PStr (hashed_password alice)) = Inr True
   \<and> authenticate_user sym_bcrypt db1 ''a@x.com'' ''secret1'' = Inr None"
  by (simp add: code_defs sym_defs data_defs db1_def mallory_def)

text \<open>
  Claim C8, amended: for every stored user, active or not, that is the first row of the
  store to have the identifier as email or username, \<open>authenticate_user\<close> returns that
  user whenever the password verifies against the stored hash; the flag is read by the
  login handler only, which issues a token to an active user and raises the
  inactive-user error otherwise.
\<close>

theorem authenticate_ignores_active_flag:
  assumes "db = pre @ u # post"
    and "\<forall>r\<in>set pre. \<not> (email r = login \<or> username r = login)"
    and "email u = login \<or> username u = login"
    and "verify_password blib (PStr password) (PStr (hashed_password u)) = Inr True"
  shows "authenticate_user blib db login password = Inr (Some u)
     \<and> login_access_token lib blib cfg now db login password =
         (if is_active u
          then Inr \<lparr>access_token =
                      create_access_token lib cfg now (user_id u) (role_value (role u))
                        (Some (minutes (ACCESS_TOKEN_EXPIRE_MINUTES cfg))),
                    token_type = ''bearer''\<rparr>
          else Inl inactive_user)"
proof -
  have "first_where (\<lambda>r. email r = login \<or> username r = login) (pre @ u # post) = Some u"
    using assms(2,3) by (rule first_where_first)
  with assms(1) have "first_where (\<lambda>r. email r = login \<or> username r = login) db = Some u"
    by simp
  with assms(4) show ?thesis
    by (simp add: authenticate_user_def login_access_token_def)
qed

theorem authenticate_ignores_active_flag_witness:
  "\<not> is_active bob
   \<and> authenticate_user sym_bcrypt db0 ''b@x.com'' ''hunter2'' = Inr (Some bob)
   \<and> login_access_token sym_jwt sym_bcrypt cfg0 0 db0 ''b@x.com'' ''hunter2''
       = Inl inactive_user"
  using authenticate_ignores_active_flag[where db=db0 and pre="[admin, alice]" and u=bob
      and post="[]" and login="''b@x.com''" and blib=sym_bcrypt and password="''hunter2''"
      and lib=sym_jwt and cfg=cfg0 and now=0]
  by (simp add: data_defs verify_password_def py_bytes_def sym_defs)

section \<open>Password reset\<close>

text \<open>
  Claim C5 as stated (an access token passed to the reset confirmation always fails)
  fails: an access token issued for the subject \<open>a@x.com\<close> is accepted by the reset
  decoder, the subject is looked up as an email, and the password of \<open>alice\<close> is
  replaced.
\<close>

theorem access_token_resets_password:
  "reset_password_confirm sym_jwt sym_bcrypt cfg0 60 salt1 db0
      (create_access_token sym_jwt cfg0 0 ''a@x.com'' ''user'' None) ''newpass''
    = Inr (''Password updated successfully'',
           [admin, alice\<lparr>hashed_password := salt1 @ ''newpass''\<rparr>, bob])"
  by (simp add: code_defs sym_defs data_defs)

text \<open>
  Claim C5, amended: the two decoders tell the token kinds apart by nothing but the
  subject text. Within their validity, the reset confirmation gives an access token
  with subject \<open>s\<close> the outcome it gives a reset token for \<open>s\<close>: Invalid token for an
  empty \<open>s\<close>, User not found when no stored email equals \<open>s\<close>, and otherwise the password
  of the first stored user with that email is replaced. The access-token decoder accepts
  a reset token for \<open>s\<close> and yields \<open>s\<close> as subject with no role, and the access guard
  gives it the outcome it gives an access token with subject \<open>s\<close>.
\<close>

theorem token_kinds_cross_use:
  assumes "token_checks lib cfg now"
    and "now < issued + (case ttl of
                           None \<Rightarrow> minutes (ACCESS_TOKEN_EXPIRE_MINUTES cfg)
                         | Some d \<Rightarrow> if d = 0 then minutes (ACCESS_TOKEN_EXPIRE_MINUTES cfg) else d)"
    and "issued' \<le> now" and "now < issued' + hours (EMAIL_RESET_TOKEN_EXPIRE_HOURS cfg)"
  shows "reset_password_confirm lib blib cfg now salt db
           (create_access_token lib cfg issued s r ttl) new_password
         = reset_password_confirm lib blib cfg now salt db
           (generate_password_reset_token lib cfg issued' s) new_password
       \<and> reset_password_confirm lib blib cfg now salt db
           (create_access_token lib cfg issued s r ttl) new_password
         = (if s = [] then Inl (HTTPException 400 ''Invalid token'')
            else case first_where (\<lambda>u. email u = s) db of
                   None \<Rightarrow> Inl (HTTPException 404 ''User not found'')
                 | Some u \<Rightarrow>
                     (case hashpw blib new_password salt of
                        Inl e \<Rightarrow> Inl e
                      | Inr h \<Rightarrow> Inr (''Password updated successfully'',
                                      commit (u\<lparr>hashed_password := h\<rparr>) db)))
       \<and> decode_access_token lib cfg now (generate_password_reset_token lib cfg issued' s)
         = Inr \<lparr>sub = JStr s, token_role = None\<rparr>
       \<and> get_current_user lib cfg now db (generate_password_reset_token lib cfg issued' s)
         = get_current_user lib cfg now db (create_access_token lib cfg issued s r ttl)"
proof -
  have acc: "jwt_decode lib (create_access_token lib cfg issued s r ttl)
               (SECRET_KEY cfg) [ALGORITHM cfg] now
             = Inr [''exp'' \<mapsto> JNum (issued + (case ttl of
                           None \<Rightarrow> minutes (ACCESS_TOKEN_EXPIRE_MINUTES cfg)
                         | Some d \<Rightarrow> if d = 0 then minutes (ACCESS_TOKEN_EXPIRE_MINUTES cfg) else d)),
                    ''sub'' \<mapsto> JStr s, ''role'' \<mapsto> JStr r]"
    using assms(1,2)
    by (auto simp: token_checks_def create_access_token_def Let_def immature_def expired_def
        split: option.splits)
  have rst: "jwt_decode lib (generate_password_reset_token lib cfg issued' s)
               (SECRET_KEY cfg) [ALGORITHM cfg] now
             = Inr [''exp'' \<mapsto> JNum (issued' + hours (EMAIL_RESET_TOKEN_EXPIRE_HOURS cfg)),
                    ''nbf'' \<mapsto> JNum issued', ''sub'' \<mapsto> JStr s]"
    using assms(1,3,4)
    by (simp add: token_checks_def generate_password_reset_token_def Let_def immature_def
        expired_def)
  have a1: "verify_password_reset_token lib cfg now (create_access_token lib cfg issued s r ttl)
      = Inr (Some (JStr s))"
    using acc by (simp add: verify_password_reset_token_def)
  have r1: "verify_password_reset_token lib cfg now
      (generate_password_reset_token lib cfg issued' s) = Inr (Some (JStr s))"
    using rst by (simp add: verify_password_reset_token_def)
  have one: "reset_password_confirm lib blib cfg now salt db
           (create_access_token lib cfg issued s r ttl) new_password
         = reset_password_confirm lib blib cfg now salt db
           (generate_password_reset_token lib cfg issued' s) new_password"
    using a1 r1 by (simp add: reset_password_confirm_def)
  have two: "reset_password_confirm lib blib cfg now salt db
           (create_access_token lib cfg issued s r ttl) new_password
         = (if s = [] then Inl (HTTPException 400 ''Invalid token'')
            else case first_where (\<lambda>u. email u = s) db of
                   None \<Rightarrow> Inl (HTTPException 404 ''User not found'')
                 | Some u \<Rightarrow>
                     (case hashpw blib new_password salt of
                        Inl e \<Rightarrow> Inl e
                      | Inr h \<Rightarrow> Inr (''Password updated successfully'',
                                      commit (u\<lparr>hashed_password := h\<rparr>) db)))"
    using a1
    by (simp add: reset_password_confirm_def get_password_hash_def py_bytes_def
        column_text_def split: option.splits sum.splits)
  have three: "decode_access_token lib cfg now (generate_password_reset_token lib cfg issued' s)
         = Inr \<lparr>sub = JStr s, token_role = None\<rparr>"
    using rst by (simp add: decode_access_token_def)
  have "decode_access_token lib cfg now (create_access_token lib cfg issued s r ttl)
         = Inr \<lparr>sub = JStr s, token_role = Some (JStr r)\<rparr>"
    using acc by (simp add: decode_access_token_def)
  with three have four:
    "get_current_user lib cfg now db (generate_password_reset_token lib cfg issued' s)
         = get_current_user lib cfg now db (create_access_token lib cfg issued s r ttl)"
    by (simp add: get_current_user_def)
  from one two three four show ?thesis by blast
qed

theorem token_kinds_cross_use_witness:
  "reset_password_confirm sym_jwt sym_bcrypt cfg0 60 salt1 db0
      (create_access_token sym_jwt cfg0 0 ''a@x.com'' ''user'' None) ''newpass''
    = reset_password_confirm sym_jwt sym_bcrypt cfg0 60 salt1 db0
      (generate_password_reset_token sym_jwt cfg0 0 ''a@x.com'') ''newpass''
   \<and> decode_access_token sym_jwt cfg0 60 (generate_password_reset_token sym_jwt cfg0 0 ''u1'')
    = Inr \<lparr>sub = JStr ''u1'', token_role = None\<rparr>
   \<and> get_current_user sym_jwt cfg0 60 db0 (generate_password_reset_token sym_jwt cfg0 0 ''u1'')
    = get_current_user sym_jwt cfg0 60 db0 (create_access_token sym_jwt cfg0 0 ''u1'' ''user'' None)"
  using token_kinds_cross_use[OF sym_jwt_token_checks, where cfg=cfg0 and now=60
      and issued=0 and issued'=0 and ttl=None and s="''a@x.com''" and db=db0
      and blib=sym_bcrypt and salt=salt1 and r="''user''" and new_password="''newpass''"]
    token_kinds_cross_use[OF sym_jwt_token_checks, where cfg=cfg0 and now=60
      and issued=0 and issued'=0 and ttl=None and s="''u1''" and db=db0
      and blib=sym_bcrypt and salt=salt1 and r="''user''" and new_password="''newpass''"]
  by (simp add: cfg0_def hours_def minutes_def)

text \<open>
  Claim C7: for a stored user and a token that decodes to that user's email, the reset
  confirmation succeeds and commits the user's row with the hash of the new password in
  place of the old one; the lookup by email then returns the row with the new hash,
  which verifies the new password and does not verify the old one (a password other
  than the new one), the library being sound.
\<close>

theorem reset_replaces_credential:
  assumes "jwt_decode lib token (SECRET_KEY cfg) [ALGORITHM cfg] now = Inr c"
    and "c ''sub'' = Some (JStr (email u))" and "email u \<noteq> []"
    and "first_where (\<lambda>r. email r = email u) db = Some u"
    and "sound_bcrypt blib" and "hashpw blib new_password salt = Inr h"
    and "old_password \<noteq> new_password"
  shows "reset_password_confirm lib blib cfg now salt db token new_password
           = Inr (''Password updated successfully'', commit (u\<lparr>hashed_password := h\<rparr>) db)
       \<and> first_where (\<lambda>r. email r = email u) (commit (u\<lparr>hashed_password := h\<rparr>) db)
           = Some (u\<lparr>hashed_password := h\<rparr>)
       \<and> verify_password blib (PStr new_password) (PStr h) = Inr True
       \<and> verify_password blib (PStr old_password) (PStr h) = Inr False"
proof -
  have "verify_password_reset_token lib cfg now token = Inr (Some (JStr (email u)))"
    using assms(1,2) by (simp add: verify_password_reset_token_def)
  moreover have "get_password_hash blib salt (PStr new_password) = Inr (PBytes h)"
    using assms(6) by (simp add: get_password_hash_def py_bytes_def)
  ultimately have outcome: "reset_password_confirm lib blib cfg now salt db token new_password
           = Inr (''Password updated successfully'', commit (u\<lparr>hashed_password := h\<rparr>) db)"
    using assms(3,4) by (simp add: reset_password_confirm_def column_text_def)
  have stored: "first_where (\<lambda>r. email r = email u) (commit (u\<lparr>hashed_password := h\<rparr>) db)
           = Some (u\<lparr>hashed_password := h\<rparr>)"
    using first_where_commit[OF assms(4), of "u\<lparr>hashed_password := h\<rparr>"] by simp
  have verdict: "verify_password blib (PStr q) (PStr h) = Inr (q = new_password)" for q
    using assms(5,6) by (simp add: sound_bcrypt_def verify_password_def py_bytes_def)
  from outcome stored verdict assms(7) show ?thesis by simp
qed

theorem reset_replaces_credential_witness:
  "reset_password_confirm sym_jwt sym_bcrypt cfg0 60 salt1 db0
      (generate_password_reset_token sym_jwt cfg0 0 ''a@x.com'') ''newpass''
     = Inr (''Password updated successfully'',
            [admin, alice\<lparr>hashed_password := salt1 @ ''newpass''\<rparr>, bob])
   \<and> verify_password sym_bcrypt (PStr ''newpass'') (PStr (salt1 @ ''newpass'')) = Inr True
   \<and> verify_password sym_bcrypt (PStr ''secret1'') (PStr (salt1 @ ''newpass'')) = Inr False"
  using reset_replaces_credential[OF _ _ _ _ sym_bcrypt_sound, where lib=sym_jwt and cfg=cfg0
      and now=60 and u=alice and db=db0 and salt=salt1 and new_password="''newpass''"
      and old_password="''secret1''"
      and token="generate_password_reset_token sym_jwt cfg0 0 ''a@x.com''"
      and c="[''exp'' \<mapsto> JNum 172800, ''nbf'' \<mapsto> JNum 0, ''sub'' \<mapsto> JStr ''a@x.com'']"
      and h="salt1 @ ''newpass''"]
  by (simp add: generate_password_reset_token_def first_where_def commit_def data_defs
      sym_defs)

section \<open>Profile update\<close>

text \<open>With an empty password the key \<open>password\<close> stays in the dictionary, and the loop
  of assignments ends in \<open>ValueError\<close> before the commit, whatever else was submitted.\<close>

lemma update_row_empty_password:
  "password_in user_in = Some [] \<Longrightarrow> update_row blib salt db u user_in = Inl ValueError"
  by (cases "email_in user_in"; cases "username_in user_in"; cases "is_active_in user_in";
      cases "role_in user_in";
      simp add: update_row_def hash_update_data_def model_dump_def)

text \<open>
  Claim C10 (an update with an empty password leaves the hash alone and still applies
  the other submitted fields). The code does not apply the other fields: a request that
  submits a new username together with an empty password ends in \<open>ValueError\<close> in
  \<open>update_user_me\<close> and in \<open>update_user\<close>, and nothing is committed.
\<close>

theorem empty_password_update_raises:
  "update_user_me sym_jwt sym_bcrypt cfg0 60 salt1 db0
      (create_access_token sym_jwt cfg0 0 ''u1'' ''user'' None)
      \<lparr>email_in = None, username_in = Some ''alice'', is_active_in = None, role_in = None,
       password_in = Some []\<rparr> = Inl ValueError
   \<and> update_user sym_jwt sym_bcrypt cfg0 60 salt1 db0
      (create_access_token sym_jwt cfg0 0 ''u0'' ''admin'' None) ''u1''
      \<lparr>email_in = None, username_in = Some ''alice'', is_active_in = None, role_in = None,
       password_in = Some []\<rparr> = Inl ValueError"
  by (simp add: update_user_me_def update_user_def update_row_def hash_update_data_def
      model_dump_def taken_def code_defs data_defs sym_defs)

text \<open>The same request without the password field is applied and committed.\<close>

lemma update_without_password_applied:
  "update_user_me sym_jwt sym_bcrypt cfg0 60 salt1 db0
      (create_access_token sym_jwt cfg0 0 ''u1'' ''user'' None)
      \<lparr>email_in = None, username_in = Some ''alice'', is_active_in = None, role_in = None,
       password_in = None\<rparr>
   = Inr (alice\<lparr>username := ''alice''\<rparr>, [admin, alice\<lparr>username := ''alice''\<rparr>, bob])"
  by (simp add: update_user_me_def update_user_def update_row_def hash_update_data_def
      model_dump_def taken_def code_defs data_defs sym_defs)

end
